theory Spec2Isabelle
  imports Main
begin

section \<open>Kubernetes inventory collector\<close>

text \<open>
  A shallow embedding of \<^verbatim>\<open>collector.py\<close> (class \<^verbatim>\<open>KubernetesInventoryCollector\<close>)
  and of \<^verbatim>\<open>run_inventory.py\<close> (\<^verbatim>\<open>main\<close>).

  Modelling conventions:
  \<^item> A Python exception is a value of type \<open>exn\<close>: its class and the text \<^verbatim>\<open>str(e)\<close>.
    Only subclasses of \<^verbatim>\<open>Exception\<close> are modelled. A call that may raise returns
    \<open>exn + 'a\<close>, with \<open>Inl\<close> for the raised exception.
  \<^item> The control plane is a value of type \<open>cluster\<close>: what each call of the API client
    answers, as a function of the call's arguments.
  \<^item> Objects of the API client are records; an attribute that the client declares
    optional and the collector tests for is an \<open>option\<close>. \<^verbatim>\<open>metadata\<close> is read
    without a test by every method and is a plain component.
  \<^item> A Python \<^verbatim>\<open>dict\<close> is an association list in insertion order.
  \<^item> A string is a list of characters; a character stands for a code point below 256.
\<close>

subsection \<open>Exceptions\<close>

text \<open>
  \<open>Collector_ConnectionError\<close> is the class \<^verbatim>\<open>ConnectionError\<close> that \<^verbatim>\<open>collector.py\<close>
  declares (a direct subclass of \<^verbatim>\<open>Exception\<close>); \<open>Builtin_ConnectionError\<close> is
  Python's built-in \<^verbatim>\<open>ConnectionError\<close> (a subclass of \<^verbatim>\<open>OSError\<close>) with its subclasses.
  \<open>FileNotFoundError\<close> is the built-in subclass of \<^verbatim>\<open>OSError\<close> of that name.
  \<open>OtherException\<close> stands for every other subclass of \<^verbatim>\<open>Exception\<close>, for instance an
  error of the HTTP layer.
\<close>

datatype exn_class =
    ApiException
  | ConfigException
  | Collector_ConnectionError
  | Builtin_ConnectionError
  | RuntimeError
  | AttributeError
  | ValueError
  | FileNotFoundError
  | OtherException

datatype exn = Exn (exn_cls: exn_class) (exn_str: string)

subsection \<open>Objects of the API client\<close>

datatype datetime = Datetime (isoformat: string)

record v1_object_meta =
  name :: string
  namespace :: string
  uid :: string
  creation_timestamp :: "datetime option"

record v1_node_system_info =
  kubelet_version :: string
  os_image :: string
  container_runtime_version :: string

record v1_node_status =
  node_info :: "v1_node_system_info option"

record v1_node =
  node_metadata :: v1_object_meta
  node_status :: "v1_node_status option"

record v1_container =
  cname :: string
  image :: "string option"

record v1_pod_spec =
  node_name :: "string option"
  service_account_name :: "string option"
  containers :: "v1_container list option"

record v1_pod_status =
  phase :: "string option"
  pod_ip :: "string option"

record v1_pod =
  pod_metadata :: v1_object_meta
  pod_spec :: "v1_pod_spec option"
  pod_status :: "v1_pod_status option"

subsection \<open>The control plane\<close>

record cluster =
  list_node :: "exn + v1_node list"
  list_pod_for_all_namespaces :: "exn + v1_pod list"
  read_namespaced_pod :: "string \<Rightarrow> string \<Rightarrow> exn + v1_pod"
  connect_get_namespaced_pod_exec ::
    "string \<Rightarrow> string \<Rightarrow> string list \<Rightarrow> string \<Rightarrow> exn + string"

text \<open>The calls a method makes on the control plane, in order.\<close>

datatype api_call =
    ListPodForAllNamespaces
  | ReadNamespacedPod string string
  | PodExec string string "string list" string

fun is_exec :: "api_call \<Rightarrow> bool" where
  "is_exec (PodExec p n c k) = True"
| "is_exec ListPodForAllNamespaces = False"
| "is_exec (ReadNamespacedPod p n) = False"

subsection \<open>Python values and dictionaries\<close>

text \<open>
  The values a record field holds: \<^verbatim>\<open>None\<close>, a string, an integer, or a list of these.
\<close>

datatype scalar = PyNone | PyStr string | PyInt int

datatype pyval = Scalar scalar | PyList "scalar list"

type_synonym pydict = "(string \<times> pyval) list"

definition opt_str :: "string option \<Rightarrow> pyval" where
  "opt_str v = (case v of None \<Rightarrow> Scalar PyNone | Some s \<Rightarrow> Scalar (PyStr s))"

definition str_val :: "string \<Rightarrow> pyval" where
  "str_val s = Scalar (PyStr s)"

text \<open>\<^verbatim>\<open>d.get(k)\<close> and \<^verbatim>\<open>d[k] = v\<close> (a new key goes last, a known key keeps its place).\<close>

fun dict_get :: "('k \<times> 'v) list \<Rightarrow> 'k \<Rightarrow> 'v option" where
  "dict_get [] k = None"
| "dict_get ((a, b) # d) k = (if a = k then Some b else dict_get d k)"

fun dict_set :: "('k \<times> 'v) list \<Rightarrow> 'k \<Rightarrow> 'v \<Rightarrow> ('k \<times> 'v) list" where
  "dict_set [] k v = [(k, v)]"
| "dict_set ((a, b) # d) k v = (if a = k then (a, v) # d else (a, b) # dict_set d k v)"

definition keys :: "('k \<times> 'v) list \<Rightarrow> 'k list" where
  "keys d = map fst d"

subsection \<open>Strings\<close>

definition newline :: char where
  "newline = CHR 0x0A"

text \<open>\<^verbatim>\<open>s.split(sep)\<close> for a separator of one character: never an empty list.\<close>

fun split :: "char \<Rightarrow> string \<Rightarrow> string list" where
  "split sep [] = [[]]"
| "split sep (c # cs) =
     (if c = sep then [] # split sep cs
      else (case split sep cs of
              [] \<Rightarrow> [[c]]
            | w # ws \<Rightarrow> (c # w) # ws))"

text \<open>\<^verbatim>\<open>str.isspace\<close> on the code points below 256.\<close>

definition isspace :: "char \<Rightarrow> bool" where
  "isspace c = ((of_char c :: nat) \<in> set [9, 10, 11, 12, 13, 28, 29, 30, 31, 32, 133, 160])"

definition strip :: "string \<Rightarrow> string" where
  "strip s = rev (dropWhile isspace (rev (dropWhile isspace s)))"

text \<open>\<^verbatim>\<open>sep.join(xs)\<close>.\<close>

fun join :: "string \<Rightarrow> string list \<Rightarrow> string" where
  "join sep [] = []"
| "join sep [x] = x"
| "join sep (x # y # ys) = x @ sep @ join sep (y # ys)"

text \<open>\<^verbatim>\<open>str(n)\<close> for an integer.\<close>

fun str_nat :: "nat \<Rightarrow> string" where
  "str_nat n =
     (if n < 10 then [''0123456789'' ! n]
      else str_nat (n div 10) @ [''0123456789'' ! (n mod 10)])"

declare str_nat.simps [simp del]

definition str_int :: "int \<Rightarrow> string" where
  "str_int i = (if i < 0 then ''-'' @ str_nat (nat (- i)) else str_nat (nat i))"

fun str :: "scalar \<Rightarrow> string" where
  "str PyNone = ''None''"
| "str (PyStr s) = s"
| "str (PyInt i) = str_int i"

text \<open>
  \<^verbatim>\<open>repr(s)\<close> for a string: double quotes when the string has a single quote and no double
  quote, single quotes otherwise; the quote and the backslash are escaped, tab, newline and
  carriage return are written \<^verbatim>\<open>\t\<close>, \<^verbatim>\<open>\n\<close>, \<^verbatim>\<open>\r\<close>, and a code point that is not printable
  (below 32, 127 to 160, 173) is written \<^verbatim>\<open>\xNN\<close>.
\<close>

definition hex2 :: "nat \<Rightarrow> string" where
  "hex2 n = [''0123456789abcdef'' ! (n div 16 mod 16), ''0123456789abcdef'' ! (n mod 16)]"

definition repr_char :: "char \<Rightarrow> char \<Rightarrow> string" where
  "repr_char quote c =
     (let n = (of_char c :: nat)
      in if c = quote \<or> c = CHR 0x5C then [CHR 0x5C, c]
         else if n = 9 then [CHR 0x5C, CHR ''t'']
         else if n = 10 then [CHR 0x5C, CHR ''n'']
         else if n = 13 then [CHR 0x5C, CHR ''r'']
         else if n < 32 \<or> n = 127 then [CHR 0x5C, CHR ''x''] @ hex2 n
         else if n < 127 then [c]
         else if n \<le> 160 \<or> n = 173 then [CHR 0x5C, CHR ''x''] @ hex2 n
         else [c])"

definition repr :: "string \<Rightarrow> string" where
  "repr s =
     (let quote = (if CHR 0x27 \<in> set s \<and> CHR 0x22 \<notin> set s then CHR 0x22 else CHR 0x27)
      in [quote] @ concat (map (repr_char quote) s) @ [quote])"

subsection \<open>Exception handlers\<close>

text \<open>
  \<^verbatim>\<open>except ApiException as e: raise RuntimeError(f"<prefix>{e}")\<close>: an \<^verbatim>\<open>ApiException\<close>
  is replaced, any other exception passes through.
\<close>

definition except_ApiException :: "string \<Rightarrow> exn + 'a \<Rightarrow> exn + 'a" where
  "except_ApiException prefix r =
     (case r of
        Inl e \<Rightarrow>
          (if exn_cls e = ApiException then Inl (Exn RuntimeError (prefix @ exn_str e))
           else Inl e)
      | Inr v \<Rightarrow> Inr v)"

text \<open>
  Reading the attribute \<open>a\<close> of \<^verbatim>\<open>None\<close>: the text is
  \<^verbatim>\<open>'NoneType' object has no attribute 'a'\<close>, with the quotes (character \<open>0x27\<close>).
\<close>

definition none_has_no_attribute :: "string \<Rightarrow> exn" where
  "none_has_no_attribute a =
     Exn AttributeError
       ([CHR 0x27] @ ''NoneType'' @ [CHR 0x27] @ '' object has no attribute ''
          @ [CHR 0x27] @ a @ [CHR 0x27])"

subsection \<open>\<^verbatim>\<open>collect_nodes\<close>\<close>

text \<open>
  The dictionary built for one node. \<^verbatim>\<open>node.status.node_info\<close> is read before the test
  \<^verbatim>\<open>if node.status.node_info\<close>: on a node without \<^verbatim>\<open>status\<close> the attribute access raises.
\<close>

definition node_record :: "v1_node \<Rightarrow> exn + pydict" where
  "node_record node =
     (case node_status node of
        None \<Rightarrow> Inl (none_has_no_attribute ''node_info'')
      | Some st \<Rightarrow>
          Inr [(''name'', str_val (name (node_metadata node))),
               (''uid'', str_val (uid (node_metadata node))),
               (''creation_timestamp'',
                  (case creation_timestamp (node_metadata node) of
                     None \<Rightarrow> Scalar PyNone
                   | Some t \<Rightarrow> str_val (isoformat t))),
               (''kubernetes_version'',
                  (case node_info st of
                     None \<Rightarrow> Scalar PyNone
                   | Some i \<Rightarrow> str_val (kubelet_version i))),
               (''os_image'',
                  (case node_info st of
                     None \<Rightarrow> Scalar PyNone
                   | Some i \<Rightarrow> str_val (os_image i))),
               (''container_runtime'',
                  (case node_info st of
                     None \<Rightarrow> Scalar PyNone
                   | Some i \<Rightarrow> str_val (container_runtime_version i)))])"

fun collect_nodes_loop :: "v1_node list \<Rightarrow> pydict list \<Rightarrow> exn + pydict list" where
  "collect_nodes_loop [] result = Inr result"
| "collect_nodes_loop (node # nodes) result =
     (case node_record node of
        Inl e \<Rightarrow> Inl e
      | Inr r \<Rightarrow> collect_nodes_loop nodes (result @ [r]))"

definition collect_nodes :: "cluster \<Rightarrow> exn + pydict list" where
  "collect_nodes k =
     except_ApiException ''Failed to list nodes: ''
       (case list_node k of
          Inl e \<Rightarrow> Inl e
        | Inr nodes \<Rightarrow> collect_nodes_loop nodes [])"

subsection \<open>\<^verbatim>\<open>collect_pods\<close>\<close>

definition pod_record :: "v1_pod \<Rightarrow> pydict" where
  "pod_record pod =
     [(''name'', str_val (name (pod_metadata pod))),
      (''namespace'', str_val (namespace (pod_metadata pod))),
      (''uid'', str_val (uid (pod_metadata pod))),
      (''node_name'',
         (case pod_spec pod of None \<Rightarrow> Scalar PyNone | Some sp \<Rightarrow> opt_str (node_name sp))),
      (''service_account'',
         (case pod_spec pod of
            None \<Rightarrow> Scalar PyNone
          | Some sp \<Rightarrow> opt_str (service_account_name sp))),
      (''status'',
         (case pod_status pod of None \<Rightarrow> Scalar PyNone | Some st \<Rightarrow> opt_str (phase st))),
      (''pod_ip'',
         (case pod_status pod of None \<Rightarrow> Scalar PyNone | Some st \<Rightarrow> opt_str (pod_ip st)))]"

fun collect_pods_loop :: "v1_pod list \<Rightarrow> pydict list \<Rightarrow> exn + pydict list" where
  "collect_pods_loop [] result = Inr result"
| "collect_pods_loop (pod # pods) result = collect_pods_loop pods (result @ [pod_record pod])"

definition collect_pods :: "cluster \<Rightarrow> exn + pydict list" where
  "collect_pods k =
     except_ApiException ''Failed to list pods: ''
       (case list_pod_for_all_namespaces k of
          Inl e \<Rightarrow> Inl e
        | Inr pods \<Rightarrow> collect_pods_loop pods [])"

subsection \<open>\<^verbatim>\<open>collect_containers\<close>\<close>

text \<open>
  The containers a pod declares; empty exactly when the test
  \<^verbatim>\<open>not pod.spec or not pod.spec.containers\<close> holds (no spec, no list, or an empty list).
\<close>

definition declared_containers :: "v1_pod \<Rightarrow> v1_container list" where
  "declared_containers pod =
     (case pod_spec pod of
        None \<Rightarrow> []
      | Some sp \<Rightarrow> (case containers sp of None \<Rightarrow> [] | Some cs \<Rightarrow> cs))"

definition container_record :: "v1_pod \<Rightarrow> v1_container \<Rightarrow> pydict" where
  "container_record pod container =
     [(''name'', str_val (cname container)),
      (''image'', opt_str (image container)),
      (''pod_name'', str_val (name (pod_metadata pod))),
      (''namespace'', str_val (namespace (pod_metadata pod))),
      (''node_name'',
         (case pod_spec pod of None \<Rightarrow> Scalar PyNone | Some sp \<Rightarrow> opt_str (node_name sp)))]"

fun collect_containers_inner ::
  "v1_pod \<Rightarrow> v1_container list \<Rightarrow> pydict list \<Rightarrow> pydict list" where
  "collect_containers_inner pod [] result = result"
| "collect_containers_inner pod (container # cs) result =
     collect_containers_inner pod cs (result @ [container_record pod container])"

fun collect_containers_loop :: "v1_pod list \<Rightarrow> pydict list \<Rightarrow> exn + pydict list" where
  "collect_containers_loop [] result = Inr result"
| "collect_containers_loop (pod # pods) result =
     (if declared_containers pod = [] then collect_containers_loop pods result
      else collect_containers_loop pods
             (collect_containers_inner pod (declared_containers pod) result))"

definition collect_containers :: "cluster \<Rightarrow> exn + pydict list" where
  "collect_containers k =
     except_ApiException ''Failed to list containers: ''
       (case list_pod_for_all_namespaces k of
          Inl e \<Rightarrow> Inl e
        | Inr pods \<Rightarrow> collect_containers_loop pods [])"

subsection \<open>\<^verbatim>\<open>collect_processes\<close>\<close>

text \<open>\<^verbatim>\<open>[line.strip() for line in resp.split("\n") if line.strip()]\<close>\<close>

definition parse_ps :: "string \<Rightarrow> string list" where
  "parse_ps resp = map strip (filter (\<lambda>line. strip line \<noteq> []) (split newline resp))"

text \<open>
  The body of the \<^verbatim>\<open>try\<close>: its outcome and the calls made on the control plane.
  \<^verbatim>\<open>not container_name\<close> holds for \<^verbatim>\<open>None\<close> and for the empty string.
\<close>

definition collect_processes_try ::
  "cluster \<Rightarrow> string \<Rightarrow> string \<Rightarrow> string option \<Rightarrow> (exn + string list) \<times> api_call list" where
  "collect_processes_try k pod_name ns container_name =
     (case read_namespaced_pod k pod_name ns of
        Inl e \<Rightarrow> (Inl e, [ReadNamespacedPod pod_name ns])
      | Inr pod \<Rightarrow>
          (case declared_containers pod of
             [] \<Rightarrow> (Inr [], [ReadNamespacedPod pod_name ns])
           | first # others \<Rightarrow>
               (let container_name' =
                      (case container_name of
                         None \<Rightarrow> cname first
                       | Some c \<Rightarrow> if c = [] then cname first else c)
                in case pod_status pod of
                     None \<Rightarrow>
                       (Inl (none_has_no_attribute ''phase''), [ReadNamespacedPod pod_name ns])
                   | Some st \<Rightarrow>
                       if phase st \<noteq> Some ''Running''
                       then (Inr [], [ReadNamespacedPod pod_name ns])
                       else
                         (case connect_get_namespaced_pod_exec k pod_name ns
                                 [''ps'', ''aux''] container_name' of
                            Inl e \<Rightarrow>
                              (Inl e,
                               [ReadNamespacedPod pod_name ns,
                                PodExec pod_name ns [''ps'', ''aux''] container_name'])
                          | Inr resp \<Rightarrow>
                              (Inr (parse_ps resp),
                               [ReadNamespacedPod pod_name ns,
                                PodExec pod_name ns [''ps'', ''aux''] container_name'])))))"

text \<open>
  The two handlers, in the order of the source: \<^verbatim>\<open>except ApiException: return []\<close>, then
  \<^verbatim>\<open>except Exception: return []\<close>.
\<close>

definition collect_processes ::
  "cluster \<Rightarrow> string \<Rightarrow> string \<Rightarrow> string option \<Rightarrow> (exn + string list) \<times> api_call list" where
  "collect_processes k pod_name ns container_name =
     (case collect_processes_try k pod_name ns container_name of
        (Inl e, calls) \<Rightarrow>
          (if exn_cls e = ApiException then (Inr [], calls) else (Inr [], calls))
      | (Inr processes, calls) \<Rightarrow> (Inr processes, calls))"

subsection \<open>\<^verbatim>\<open>collect_all_processes\<close>\<close>

definition process_record :: "v1_pod \<Rightarrow> v1_container \<Rightarrow> string list \<Rightarrow> pydict" where
  "process_record pod container processes =
     [(''pod_name'', str_val (name (pod_metadata pod))),
      (''namespace'', str_val (namespace (pod_metadata pod))),
      (''container_name'', str_val (cname container)),
      (''processes'', PyList (map PyStr processes))]"

fun collect_all_processes_inner ::
  "cluster \<Rightarrow> v1_pod \<Rightarrow> v1_container list \<Rightarrow> pydict list \<Rightarrow> api_call list \<Rightarrow>
     (exn + pydict list) \<times> api_call list" where
  "collect_all_processes_inner k pod [] result calls = (Inr result, calls)"
| "collect_all_processes_inner k pod (container # cs) result calls =
     (case collect_processes k (name (pod_metadata pod)) (namespace (pod_metadata pod))
             (Some (cname container)) of
        (Inl e, made) \<Rightarrow> (Inl e, calls @ made)
      | (Inr processes, made) \<Rightarrow>
          collect_all_processes_inner k pod cs
            (result @ [process_record pod container processes]) (calls @ made))"

text \<open>
  The loop over the pods. \<^verbatim>\<open>pod.status.phase\<close> is read without a test: a pod without
  \<^verbatim>\<open>status\<close> raises \<^verbatim>\<open>AttributeError\<close>, which the handler for \<^verbatim>\<open>ApiException\<close> lets through.
\<close>

fun collect_all_processes_loop ::
  "cluster \<Rightarrow> v1_pod list \<Rightarrow> pydict list \<Rightarrow> api_call list \<Rightarrow>
     (exn + pydict list) \<times> api_call list" where
  "collect_all_processes_loop k [] result calls = (Inr result, calls)"
| "collect_all_processes_loop k (pod # pods) result calls =
     (case pod_status pod of
        None \<Rightarrow> (Inl (none_has_no_attribute ''phase''), calls)
      | Some st \<Rightarrow>
          if phase st \<noteq> Some ''Running'' then collect_all_processes_loop k pods result calls
          else if declared_containers pod = []
          then collect_all_processes_loop k pods result calls
          else
            (case collect_all_processes_inner k pod (declared_containers pod) result calls of
               (Inl e, calls') \<Rightarrow> (Inl e, calls')
             | (Inr result', calls') \<Rightarrow> collect_all_processes_loop k pods result' calls'))"

definition collect_all_processes :: "cluster \<Rightarrow> (exn + pydict list) \<times> api_call list" where
  "collect_all_processes k =
     (case (case list_pod_for_all_namespaces k of
              Inl e \<Rightarrow> (Inl e, [ListPodForAllNamespaces])
            | Inr pods \<Rightarrow> collect_all_processes_loop k pods [] [ListPodForAllNamespaces]) of
        (r, calls) \<Rightarrow> (except_ApiException ''Failed to collect processes: '' r, calls))"

text \<open>
  What \<^verbatim>\<open>collect_processes\<close> returns for one container of a listed pod, called as
  \<^verbatim>\<open>collect_all_processes\<close> calls it.
\<close>

definition listed_processes :: "cluster \<Rightarrow> v1_pod \<Rightarrow> v1_container \<Rightarrow> string list" where
  "listed_processes k pod container =
     (case fst (collect_processes k (name (pod_metadata pod)) (namespace (pod_metadata pod))
                  (Some (cname container))) of
        Inl e \<Rightarrow> []
      | Inr processes \<Rightarrow> processes)"

subsection \<open>The operating system\<close>

text \<open>
  What the program leaves behind, and how the file system answers it.
  \<^item> \<open>dirs\<close>: the directories that a completed call of \<^verbatim>\<open>os.makedirs\<close> has made sure exist.
  \<^item> \<open>files\<close>: the files the program has opened for writing, with their contents. A file
    written through \<^verbatim>\<open>csv.DictWriter\<close> is kept as its rows, each a list of fields; quoting
    and line ends belong to the \<^verbatim>\<open>csv\<close> module.
  \<^item> \<open>stdout\<close>, \<open>stderr\<close>: the lines printed.
  \<^item> \<open>makedirs_error p\<close>: the exception that \<^verbatim>\<open>os.makedirs(p, exist_ok=True)\<close> raises, if any
    (for the empty path \<^verbatim>\<open>FileNotFoundError\<close>, for instance).
  \<^item> \<open>open_error p\<close>: the exception that \<^verbatim>\<open>open(p, "w")\<close> raises, if any (\<^verbatim>\<open>FileNotFoundError\<close>
    when the directory of \<open>p\<close> does not exist, for instance).
  The last two are given, as the answers of the control plane are: the file system is no
  part of the program. Paths are compared as written.
\<close>

type_synonym csv_table = "string list list"

record os_state =
  dirs :: "string set"
  files :: "string \<rightharpoonup> csv_table"
  stdout :: "string list"
  stderr :: "string list"
  makedirs_error :: "string \<Rightarrow> exn option"
  open_error :: "string \<Rightarrow> exn option"

definition print :: "string \<Rightarrow> os_state \<Rightarrow> os_state" where
  "print line s = s\<lparr>stdout := stdout s @ [line]\<rparr>"

definition print_stderr :: "string \<Rightarrow> os_state \<Rightarrow> os_state" where
  "print_stderr line s = s\<lparr>stderr := stderr s @ [line]\<rparr>"

text \<open>\<^verbatim>\<open>os.path.join(a, b)\<close> of \<^verbatim>\<open>posixpath\<close>: an absolute \<open>b\<close> replaces \<open>a\<close>.\<close>

definition os_path_join :: "string \<Rightarrow> string \<Rightarrow> string" where
  "os_path_join a b =
     (if take 1 b = ''/'' then b
      else if a = [] \<or> last a = CHR ''/'' then a @ b
      else a @ ''/'' @ b)"

text \<open>
  \<^verbatim>\<open>os.makedirs(path, exist_ok=True)\<close>: it raises what the file system answers; otherwise
  the directory and each directory above it exist afterwards. \<open>path_ancestors\<close> lists the
  prefixes of the path that end before a separator.
\<close>

definition path_ancestors :: "string \<Rightarrow> string list" where
  "path_ancestors p = map (\<lambda>i. take i p) (filter (\<lambda>i. p ! i = CHR ''/'') [1..<length p])"

definition makedirs :: "string \<Rightarrow> os_state \<Rightarrow> exn + os_state" where
  "makedirs p s =
     (case makedirs_error s p of
        Some e \<Rightarrow> Inl e
      | None \<Rightarrow> Inr (s\<lparr>dirs := dirs s \<union> set (path_ancestors p) \<union> {p}\<rparr>))"

text \<open>
  \<^verbatim>\<open>open(filename, "w")\<close>: it raises what the file system answers; otherwise the file
  exists afterwards and is empty. \<open>write_file\<close> is the contents of an open file once the
  \<^verbatim>\<open>with\<close> block is left.
\<close>

definition open_w :: "string \<Rightarrow> os_state \<Rightarrow> exn + os_state" where
  "open_w filename s =
     (case open_error s filename of
        Some e \<Rightarrow> Inl e
      | None \<Rightarrow> Inr (s\<lparr>files := (files s)(filename \<mapsto> [])\<rparr>))"

definition write_file :: "string \<Rightarrow> csv_table \<Rightarrow> os_state \<Rightarrow> os_state" where
  "write_file filename rows s = s\<lparr>files := (files s)(filename \<mapsto> rows)\<rparr>"

subsection \<open>\<^verbatim>\<open>csv.DictWriter\<close>\<close>

text \<open>
  The writer is made with the defaults \<^verbatim>\<open>restval=''\<close> and \<^verbatim>\<open>extrasaction='raise'\<close>:
  \<^verbatim>\<open>writerow\<close> raises \<^verbatim>\<open>ValueError\<close> when the row has a key that is no field name, and
  writes the fields in the order of the field names. The text of the error lists the
  \<^verbatim>\<open>repr\<close> of the offending keys; Python takes them from a set, here they stand in the
  order of the row. The \<^verbatim>\<open>csv\<close> module writes \<^verbatim>\<open>None\<close> as
  the empty string and any other value as \<^verbatim>\<open>str\<close> gives it.
\<close>

fun csv_field :: "scalar \<Rightarrow> string" where
  "csv_field PyNone = []"
| "csv_field (PyStr s) = s"
| "csv_field (PyInt i) = str_int i"

definition DictWriter_writerow ::
  "string list \<Rightarrow> (string \<times> scalar) list \<Rightarrow> exn + string list" where
  "DictWriter_writerow fieldnames rowdict =
     (if filter (\<lambda>key. key \<notin> set fieldnames) (keys rowdict) \<noteq> []
      then Inl (Exn ValueError
                  (''dict contains fields not in fieldnames: ''
                     @ join '', '' (map repr (filter (\<lambda>key. key \<notin> set fieldnames)
                                                (keys rowdict)))))
      else Inr (map (\<lambda>key. csv_field
                              (case dict_get rowdict key of
                                 None \<Rightarrow> PyStr []
                               | Some v \<Rightarrow> v))
                  fieldnames))"

text \<open>\<^verbatim>\<open>writeheader\<close>: \<^verbatim>\<open>self.writerow(dict(zip(self.fieldnames, self.fieldnames)))\<close>\<close>

definition DictWriter_writeheader :: "string list \<Rightarrow> exn + string list" where
  "DictWriter_writeheader fieldnames =
     DictWriter_writerow fieldnames
       (fold (\<lambda>(key, v) d. dict_set d key (PyStr v)) (zip fieldnames fieldnames) [])"

subsection \<open>\<^verbatim>\<open>export_csv\<close>\<close>

text \<open>
  \<^verbatim>\<open>value = item.get(field)\<close>, then the join of a list:
  \<^verbatim>\<open>"\n".join(str(v) for v in value)\<close>. A missing key gives \<^verbatim>\<open>None\<close>.
\<close>

definition flatten_value :: "pyval option \<Rightarrow> scalar" where
  "flatten_value v =
     (case v of
        None \<Rightarrow> PyNone
      | Some (Scalar x) \<Rightarrow> x
      | Some (PyList xs) \<Rightarrow> PyStr (join [newline] (map str xs)))"

text \<open>The loop \<^verbatim>\<open>for field in fieldnames: ... row[field] = value\<close>.\<close>

fun build_row :: "string list \<Rightarrow> pydict \<Rightarrow> (string \<times> scalar) list \<Rightarrow> (string \<times> scalar) list" where
  "build_row [] item row = row"
| "build_row (field # remaining) item row =
     build_row remaining item (dict_set row field (flatten_value (dict_get item field)))"

text \<open>
  The loop \<^verbatim>\<open>for item in items\<close>; \<open>written\<close> holds the rows already in the file. When
  \<^verbatim>\<open>writerow\<close> raises, the rows written so far stay in the file.
\<close>

fun write_rows :: "string list \<Rightarrow> pydict list \<Rightarrow> csv_table \<Rightarrow> (exn + unit) \<times> csv_table" where
  "write_rows fieldnames [] written = (Inr (), written)"
| "write_rows fieldnames (item # items) written =
     (case DictWriter_writerow fieldnames (build_row fieldnames item []) of
        Inl e \<Rightarrow> (Inl e, written)
      | Inr r \<Rightarrow> write_rows fieldnames items (written @ [r]))"

definition write_table :: "string list \<Rightarrow> pydict list \<Rightarrow> (exn + unit) \<times> csv_table" where
  "write_table fieldnames items =
     (case DictWriter_writeheader fieldnames of
        Inl e \<Rightarrow> (Inl e, [])
      | Inr header \<Rightarrow> write_rows fieldnames items [header])"

text \<open>
  The loop \<^verbatim>\<open>for key, items in data.items()\<close>. When \<^verbatim>\<open>open\<close> raises, the loop ends there:
  nothing is written for this category or for the later ones.
\<close>

fun export_loop ::
  "string \<Rightarrow> (string \<times> pydict list) list \<Rightarrow> os_state \<Rightarrow> (exn + unit) \<times> os_state" where
  "export_loop output_dir [] s = (Inr (), s)"
| "export_loop output_dir ((key, items) # rest) s =
     (case items of
        [] \<Rightarrow> export_loop output_dir rest s
      | first # others \<Rightarrow>
          (let filename = os_path_join output_dir (key @ ''.csv'');
               fieldnames = keys first
           in case open_w filename s of
                Inl e \<Rightarrow> (Inl e, s)
              | Inr opened \<Rightarrow>
                  (case write_table fieldnames items of
                     (Inl e, rows) \<Rightarrow> (Inl e, write_file filename rows opened)
                   | (Inr u, rows) \<Rightarrow>
                       export_loop output_dir rest
                         (print (''Exported '' @ str_nat (length items) @ '' '' @ key
                                   @ '' to '' @ filename)
                            (write_file filename rows opened)))))"

definition export_csv ::
  "(string \<times> pydict list) list \<Rightarrow> string \<Rightarrow> os_state \<Rightarrow> (exn + unit) \<times> os_state" where
  "export_csv data output_dir s =
     (case makedirs output_dir s of
        Inl e \<Rightarrow> (Inl e, s)
      | Inr made \<Rightarrow> export_loop output_dir data made)"

subsection \<open>\<^verbatim>\<open>_connect\<close>\<close>

text \<open>The three calls that set up the client, and what each answers.\<close>

record kube_config =
  load_incluster_config :: "exn + unit"
  load_kube_config :: "exn + unit"
  CoreV1Api :: "exn + cluster"

text \<open>
  The constructor of the collector: the inner handler catches \<^verbatim>\<open>ConfigException\<close> only,
  the outer one turns any exception into the collector's own \<^verbatim>\<open>ConnectionError\<close>.
\<close>

definition connect :: "kube_config \<Rightarrow> exn + cluster" where
  "connect cfg =
     (case (case (case load_incluster_config cfg of
                    Inl e \<Rightarrow> if exn_cls e = ConfigException then load_kube_config cfg else Inl e
                  | Inr u \<Rightarrow> Inr u) of
              Inl e \<Rightarrow> Inl e
            | Inr u \<Rightarrow> CoreV1Api cfg) of
        Inl e \<Rightarrow>
          Inl (Exn Collector_ConnectionError
                 (''Failed to connect to Kubernetes cluster: '' @ exn_str e))
      | Inr k \<Rightarrow> Inr k)"

subsection \<open>\<^verbatim>\<open>main\<close> of \<^verbatim>\<open>run_inventory.py\<close>\<close>

text \<open>
  The body of the \<^verbatim>\<open>try\<close>, after the arguments are parsed. Each \<^verbatim>\<open>print\<close> adds its
  argument to \<open>stdout\<close>.
\<close>

definition collect_optional ::
  "cluster \<Rightarrow> bool \<Rightarrow> (string \<times> pydict list) list \<Rightarrow> os_state \<Rightarrow>
     (exn + (string \<times> pydict list) list) \<times> os_state" where
  "collect_optional k include_processes data s =
     (if include_processes then
        (let s1 = print ''Collecting processes from running containers...'' s
         in case fst (collect_all_processes k) of
              Inl e \<Rightarrow> (Inl e, s1)
            | Inr processes \<Rightarrow>
                (Inr (dict_set data ''processes'' processes),
                 print (''  Collected processes from '' @ str_nat (length processes)
                          @ '' containers'') s1))
      else (Inr data, s))"

definition main_try ::
  "kube_config \<Rightarrow> string \<Rightarrow> bool \<Rightarrow> os_state \<Rightarrow> (exn + unit) \<times> os_state" where
  "main_try cfg output_dir include_processes s0 =
     (let s1 = print ''Connecting to Kubernetes cluster...'' s0
      in case connect cfg of
           Inl e \<Rightarrow> (Inl e, s1)
         | Inr k \<Rightarrow>
      (let s2 = print ''Collecting nodes...'' s1
       in case collect_nodes k of
            Inl e \<Rightarrow> (Inl e, s2)
          | Inr nodes \<Rightarrow>
      (let s3 = print ''Collecting pods...''
                  (print (''  Found '' @ str_nat (length nodes) @ '' nodes'') s2)
       in case collect_pods k of
            Inl e \<Rightarrow> (Inl e, s3)
          | Inr pods \<Rightarrow>
      (let s4 = print ''Collecting containers...''
                  (print (''  Found '' @ str_nat (length pods) @ '' pods'') s3)
       in case collect_containers k of
            Inl e \<Rightarrow> (Inl e, s4)
          | Inr cs \<Rightarrow>
      (let s5 = print (''  Found '' @ str_nat (length cs) @ '' containers'') s4;
           data = [(''nodes'', nodes), (''pods'', pods), (''containers'', cs)]
       in case collect_optional k include_processes data s5 of
            (Inl e, s6) \<Rightarrow> (Inl e, s6)
          | (Inr data', s6) \<Rightarrow>
      (let s7 = print ([newline] @ ''Exporting CSV files to '' @ output_dir @ ''...'') s6
       in case export_csv data' output_dir s7 of
            (Inl e, s8) \<Rightarrow> (Inl e, s8)
          | (Inr u, s8) \<Rightarrow>
              (Inr (), print ([newline] @ ''Inventory collection complete!'') s8)))))))"

text \<open>
  The handlers of \<^verbatim>\<open>main\<close>. \<^verbatim>\<open>run_inventory.py\<close> imports only
  \<^verbatim>\<open>KubernetesInventoryCollector\<close> from \<^verbatim>\<open>collector\<close>, so the name \<^verbatim>\<open>ConnectionError\<close> in
  \<^verbatim>\<open>except ConnectionError\<close> is Python's built-in class. The result is the final state and
  the exit status (\<open>0\<close> when \<^verbatim>\<open>main\<close> returns, the argument of \<^verbatim>\<open>sys.exit\<close> otherwise).
\<close>

definition main :: "kube_config \<Rightarrow> string \<Rightarrow> bool \<Rightarrow> os_state \<Rightarrow> os_state \<times> int" where
  "main cfg output_dir include_processes s0 =
     (case main_try cfg output_dir include_processes s0 of
        (Inr u, s) \<Rightarrow> (s, 0)
      | (Inl e, s) \<Rightarrow>
          if exn_cls e = Builtin_ConnectionError
          then (print_stderr ''  - GOOGLE_APPLICATION_CREDENTIALS environment variable set''
                  (print ''  - Valid kubeconfig file, or''
                     (print ([newline] @ ''Make sure you have:'')
                        (print_stderr (''Error: '' @ exn_str e) s))),
                1)
          else (print_stderr (''Error: '' @ exn_str e) s, 1))"

subsection \<open>Example inputs\<close>

definition meta_of :: "string \<Rightarrow> string \<Rightarrow> v1_object_meta" where
  "meta_of n ns = \<lparr>name = n, namespace = ns, uid = ''uid-'' @ n, creation_timestamp = None\<rparr>"

definition api_error :: exn where
  "api_error = Exn ApiException ''(500) Internal Server Error''"

text \<open>A running pod with two containers, and the same pod after it has finished.\<close>

definition running_pod :: v1_pod where
  "running_pod =
     \<lparr>pod_metadata = meta_of ''web'' ''default'',
      pod_spec = Some \<lparr>node_name = Some ''node-1'', service_account_name = Some ''default'',
        containers = Some [\<lparr>cname = ''app'', image = Some ''nginx:1.25''\<rparr>,
                           \<lparr>cname = ''sidecar'', image = None\<rparr>]\<rparr>,
      pod_status = Some \<lparr>phase = Some ''Running'', pod_ip = Some ''10.0.0.7''\<rparr>\<rparr>"

definition finished_pod :: v1_pod where
  "finished_pod = running_pod\<lparr>pod_status := Some \<lparr>phase = Some ''Succeeded'', pod_ip = None\<rparr>\<rparr>"

text \<open>A control plane that fails every call, one that fails every exec, and one that
  answers for the finished pod.\<close>

definition broken_cluster :: cluster where
  "broken_cluster =
     \<lparr>list_node = Inl api_error, list_pod_for_all_namespaces = Inl api_error,
      read_namespaced_pod = (\<lambda>p n. Inl api_error),
      connect_get_namespaced_pod_exec = (\<lambda>p n c k. Inl api_error)\<rparr>"

definition exec_broken_cluster :: cluster where
  "exec_broken_cluster =
     \<lparr>list_node = Inr [], list_pod_for_all_namespaces = Inr [running_pod],
      read_namespaced_pod = (\<lambda>p n. Inr running_pod),
      connect_get_namespaced_pod_exec = (\<lambda>p n c k. Inl (Exn OtherException ''exec failed''))\<rparr>"

definition finished_cluster :: cluster where
  "finished_cluster =
     exec_broken_cluster\<lparr>read_namespaced_pod := (\<lambda>p n. Inr finished_pod),
       connect_get_namespaced_pod_exec := (\<lambda>p n c k. Inr ''PID'')\<rparr>"

text \<open>A pod and a node that carry only their metadata, and a pending pod with one container.\<close>

definition bare_pod :: v1_pod where
  "bare_pod = \<lparr>pod_metadata = meta_of ''pending'' ''default'', pod_spec = None, pod_status = None\<rparr>"

definition bare_node :: v1_node where
  "bare_node = \<lparr>node_metadata = meta_of ''node-1'' [], node_status = None\<rparr>"

definition db_pod :: v1_pod where
  "db_pod =
     \<lparr>pod_metadata = meta_of ''db'' ''prod'',
      pod_spec = Some \<lparr>node_name = None, service_account_name = None,
        containers = Some [\<lparr>cname = ''postgres'', image = Some ''postgres:16''\<rparr>]\<rparr>,
      pod_status = Some \<lparr>phase = Some ''Pending'', pod_ip = None\<rparr>\<rparr>"

definition bare_cluster :: cluster where
  "bare_cluster =
     \<lparr>list_node = Inr [bare_node], list_pod_for_all_namespaces = Inr [bare_pod],
      read_namespaced_pod = (\<lambda>p n. Inr bare_pod),
      connect_get_namespaced_pod_exec = (\<lambda>p n c k. Inr [])\<rparr>"

definition three_container_cluster :: cluster where
  "three_container_cluster =
     broken_cluster\<lparr>list_pod_for_all_namespaces := Inr [running_pod, bare_pod, db_pod]\<rparr>"

text \<open>A control plane where the exec into the container \<^verbatim>\<open>sidecar\<close> fails and any other
  exec prints two lines.\<close>

definition ps_output :: string where
  "ps_output = ''PID USER COMMAND'' @ [newline] @ ''  1 root nginx '' @ [newline]"

definition sidecar_broken_cluster :: cluster where
  "sidecar_broken_cluster =
     \<lparr>list_node = Inr [], list_pod_for_all_namespaces = Inr [db_pod, running_pod],
      read_namespaced_pod = (\<lambda>p n. Inr running_pod),
      connect_get_namespaced_pod_exec =
        (\<lambda>p n c k. if k = ''sidecar'' then Inl api_error else Inr ps_output)\<rparr>"

text \<open>A control plane that cannot be reached: the HTTP layer raises, not the API client.\<close>

definition timeout_error :: exn where
  "timeout_error = Exn OtherException ''Max retries exceeded (connect timeout)''"

definition timeout_cluster :: cluster where
  "timeout_cluster =
     \<lparr>list_node = Inl timeout_error, list_pod_for_all_namespaces = Inl timeout_error,
      read_namespaced_pod = (\<lambda>p n. Inl timeout_error),
      connect_get_namespaced_pod_exec = (\<lambda>p n c k. Inl timeout_error)\<rparr>"

text \<open>
  An empty working directory: no directory can be made at the empty path, and
  \<^verbatim>\<open>output/a/b.csv\<close> cannot be opened, since nothing makes the directory \<^verbatim>\<open>output/a\<close>.
  Then runs of \<^verbatim>\<open>main\<close>: no credentials at all, and a listing that raises the built-in
  \<^verbatim>\<open>ConnectionError\<close>.
\<close>

definition no_such_file :: "string \<Rightarrow> exn" where
  "no_such_file p =
     Exn FileNotFoundError (''[Errno 2] No such file or directory: '' @ repr p)"

definition initial_os :: os_state where
  "initial_os =
     \<lparr>dirs = {}, files = Map.empty, stdout = [], stderr = [],
      makedirs_error = (\<lambda>p. if p = [] then Some (no_such_file p) else None),
      open_error = (\<lambda>p. if p = ''output/a/b.csv'' then Some (no_such_file p) else None)\<rparr>"

definition no_credentials :: kube_config where
  "no_credentials =
     \<lparr>load_incluster_config = Inl (Exn ConfigException ''Service host/port is not set.''),
      load_kube_config = Inl (Exn ConfigException ''Invalid kube-config file.''),
      CoreV1Api = Inr broken_cluster\<rparr>"

definition refused_cluster :: cluster where
  "refused_cluster =
     broken_cluster\<lparr>list_node := Inl (Exn Builtin_ConnectionError ''Connection refused'')\<rparr>"

definition refused_config :: kube_config where
  "refused_config =
     \<lparr>load_incluster_config = Inr (), load_kube_config = Inr (), CoreV1Api = Inr refused_cluster\<rparr>"

text \<open>Record sets for \<^verbatim>\<open>export_csv\<close>.\<close>

definition order_records :: "pydict list" where
  "order_records =
     [[(''b'', Scalar (PyInt 1)), (''a'', Scalar (PyInt 2))],
      [(''a'', Scalar (PyInt 9)), (''b'', Scalar (PyInt 9))]]"

definition tagged_records :: "pydict list" where
  "tagged_records =
     [[(''name'', Scalar (PyStr ''x'')), (''tags'', PyList [PyStr ''a'', PyStr ''b''])],
      [(''name'', Scalar PyNone), (''tags'', PyList [])]]"

definition mixed_records :: "pydict list" where
  "mixed_records =
     [[(''name'', Scalar (PyStr ''web'')), (''status'', Scalar (PyStr ''Running''))],
      [(''name'', Scalar (PyStr ''db'')), (''pod_ip'', Scalar (PyStr ''10.0.0.9''))]]"

definition export_data :: "(string \<times> pydict list) list" where
  "export_data = [(''items'', order_records), (''tagged'', tagged_records)]"


definition mixed_data :: "(string \<times> pydict list) list" where
  "mixed_data = [(''mixed'', mixed_records)]"



text \<open>A listing with a running pod followed by a pod without status; every exec
  succeeds.\<close>

definition lost_cluster :: cluster where
  "lost_cluster =
     \<lparr>list_node = Inr [], list_pod_for_all_namespaces = Inr [running_pod, bare_pod],
      read_namespaced_pod = (\<lambda>p n. Inr running_pod),
      connect_get_namespaced_pod_exec = (\<lambda>p n c k. Inr ps_output)\<rparr>"

section \<open>Properties\<close>

subsection \<open>The loops in closed form\<close>

lemma collect_processes_returns:
  "\<exists>processes. fst (collect_processes k pod_name ns container_name) = Inr processes"
  by (simp add: collect_processes_def split: prod.splits sum.splits)

lemma collect_processes_listed:
  "collect_processes k (name (pod_metadata pod)) (namespace (pod_metadata pod))
     (Some (cname container)) =
   (Inr (listed_processes k pod container),
    snd (collect_processes k (name (pod_metadata pod)) (namespace (pod_metadata pod))
           (Some (cname container))))"
  using collect_processes_returns
    [of k "name (pod_metadata pod)" "namespace (pod_metadata pod)" "Some (cname container)"]
  by (auto simp: listed_processes_def prod_eq_iff)

lemma collect_containers_inner_eq:
  "collect_containers_inner pod cs result = result @ map (container_record pod) cs"
  by (induction cs arbitrary: result) simp_all

lemma collect_containers_loop_eq:
  "collect_containers_loop pods result =
     Inr (result @ concat (map (\<lambda>pod. map (container_record pod) (declared_containers pod)) pods))"
  by (induction pods arbitrary: result) (simp_all add: collect_containers_inner_eq)

lemma collect_all_processes_inner_eq:
  "collect_all_processes_inner k pod cs result calls =
     (Inr (result @ map (\<lambda>c. process_record pod c (listed_processes k pod c)) cs),
      calls @ concat (map (\<lambda>c. snd (collect_processes k (name (pod_metadata pod))
                                       (namespace (pod_metadata pod)) (Some (cname c)))) cs))"
proof (induction cs arbitrary: result calls)
  case Nil
  show ?case by simp
next
  case (Cons c cs)
  show ?case
    by (subst collect_all_processes_inner.simps, subst collect_processes_listed)
      (simp add: Cons.IH)
qed

lemma collect_all_processes_loop_eq:
  assumes "\<forall>pod\<in>set pods. pod_status pod \<noteq> None"
  shows "collect_all_processes_loop k pods result calls =
     (Inr (result @ concat (map (\<lambda>pod. map (\<lambda>c. process_record pod c (listed_processes k pod c))
                                        (declared_containers pod))
                             (filter (\<lambda>pod. Option.bind (pod_status pod) phase = Some ''Running'')
                                pods))),
      calls @ concat (map (\<lambda>pod. concat (map (\<lambda>c. snd (collect_processes k
                                       (name (pod_metadata pod))
                                       (namespace (pod_metadata pod)) (Some (cname c))))
                                     (declared_containers pod)))
                       (filter (\<lambda>pod. Option.bind (pod_status pod) phase = Some ''Running'')
                                pods)))"
  using assms
proof (induction pods arbitrary: result calls)
  case Nil
  show ?case by simp
next
  case (Cons pod pods)
  from Cons.prems obtain st where st: "pod_status pod = Some st" by auto
  from Cons.prems have rest: "\<forall>pod\<in>set pods. pod_status pod \<noteq> None" by simp
  show ?case
  proof (cases "phase st = Some ''Running''")
    case False
    with st show ?thesis by (simp add: Cons.IH [OF rest])
  next
    case True
    with st show ?thesis
      by (simp add: Cons.IH [OF rest] collect_all_processes_inner_eq)
  qed
qed

subsection \<open>Dictionaries, rows and files\<close>

lemma dict_get_dict_set:
  "dict_get (dict_set d k v) k' = (if k' = k then Some v else dict_get d k')"
  by (induction d) auto

lemma keys_Nil: "keys [] = []"
  by (simp add: keys_def)

lemma keys_Cons: "keys ((a, b) # d) = a # keys d"
  by (simp add: keys_def)

lemma keys_dict_set: "set (keys (dict_set d k v)) = insert k (set (keys d))"
  by (induction d) (auto simp: keys_Nil keys_Cons split: if_splits)

lemma dict_get_None_iff: "(dict_get d k = None) = (k \<notin> set (keys d))"
  by (induction d) (auto simp: keys_Nil keys_Cons split: if_splits)

lemma dict_get_filter:
  "dict_get (filter (\<lambda>(f, v). f \<in> S) d) k = (if k \<in> S then dict_get d k else None)"
  by (induction d) auto

lemma dict_get_build_row:
  "dict_get (build_row fieldnames item row) f =
     (if f \<in> set fieldnames then Some (flatten_value (dict_get item f)) else dict_get row f)"
  by (induction fieldnames arbitrary: row) (auto simp: dict_get_dict_set)

lemma keys_build_row:
  "set (keys (build_row fieldnames item row)) = set (keys row) \<union> set fieldnames"
  by (induction fieldnames arbitrary: row) (auto simp: keys_dict_set)

lemma writerow_build_row:
  "DictWriter_writerow fieldnames (build_row fieldnames item []) =
     Inr (map (\<lambda>f. csv_field (flatten_value (dict_get item f))) fieldnames)"
  by (simp add: DictWriter_writerow_def keys_build_row dict_get_build_row filter_empty_conv
      keys_Nil)

lemma dict_get_header:
  "dict_get (fold (\<lambda>(key, v) d. dict_set d key (PyStr v)) (zip fs fs) d) f =
     (if f \<in> set fs then Some (PyStr f) else dict_get d f)"
  by (induction fs arbitrary: d) (auto simp: dict_get_dict_set)

lemma keys_header:
  "set (keys (fold (\<lambda>(key, v) d. dict_set d key (PyStr v)) (zip fs fs) d)) =
     set (keys d) \<union> set fs"
  by (induction fs arbitrary: d) (auto simp: keys_dict_set)

lemma writeheader_eq: "DictWriter_writeheader fieldnames = Inr fieldnames"
  by (simp add: DictWriter_writeheader_def DictWriter_writerow_def keys_header dict_get_header
      filter_empty_conv keys_Nil map_idI)

lemma write_rows_eq:
  "write_rows fieldnames items written =
     (Inr (), written @ map (\<lambda>item. map (\<lambda>f. csv_field (flatten_value (dict_get item f)))
                                     fieldnames) items)"
  by (induction items arbitrary: written) (simp_all add: writerow_build_row)

lemma write_table_eq:
  "write_table fieldnames items =
     (Inr (), fieldnames # map (\<lambda>item. map (\<lambda>f. csv_field (flatten_value (dict_get item f)))
                                       fieldnames) items)"
  by (simp add: write_table_def writeheader_eq write_rows_eq)





lemma export_loop_eq:
  assumes "\<forall>(key, items)\<in>set data.
             items \<noteq> [] \<longrightarrow> open_error s (os_path_join output_dir (key @ ''.csv'')) = None"
  shows "fst (export_loop output_dir data s) = Inr () \<and>
   files (snd (export_loop output_dir data s)) =
     files s ++ map_of (rev (map (\<lambda>(key, items).
         (os_path_join output_dir (key @ ''.csv''),
          keys (hd items) # map (\<lambda>item. map (\<lambda>f. csv_field (flatten_value (dict_get item f)))
                                         (keys (hd items))) items))
       (filter (\<lambda>(key, items). items \<noteq> []) data)))"
  using assms
proof (induction data arbitrary: s)
  case Nil
  show ?case by simp
next
  case (Cons entry data)
  obtain key items where entry: "entry = (key, items)" by (cases entry)
  from Cons.prems
  have rest: "\<forall>(key, items)\<in>set data.
             items \<noteq> [] \<longrightarrow> open_error s (os_path_join output_dir (key @ ''.csv'')) = None"
    by simp
  show ?case
  proof (cases items)
    case Nil
    with entry Cons.IH [OF rest] show ?thesis by simp
  next
    case items: (Cons first others)
    let ?next = "print (''Exported '' @ str_nat (length items) @ '' '' @ key @ '' to ''
                            @ os_path_join output_dir (key @ ''.csv''))
                     (write_file (os_path_join output_dir (key @ ''.csv''))
                        (keys first # map (\<lambda>item. map (\<lambda>f. csv_field (flatten_value (dict_get item f)))
                                         (keys first)) items)
                        (s\<lparr>files := (files s)(os_path_join output_dir (key @ ''.csv'') \<mapsto> [])\<rparr>))"
    from Cons.prems entry items
    have ok: "open_error s (os_path_join output_dir (key @ ''.csv'')) = None" by simp
    have step: "export_loop output_dir (entry # data) s = export_loop output_dir data ?next"
      using ok items entry by (simp add: open_w_def Let_def write_table_eq)
    have "\<forall>(key, items)\<in>set data.
             items \<noteq> [] \<longrightarrow> open_error ?next (os_path_join output_dir (key @ ''.csv'')) = None"
      using rest by (simp add: print_def write_file_def)
    from Cons.IH [OF this] items entry show ?thesis
      unfolding step
      by (auto simp add: write_file_def print_def map_add_def fun_eq_iff split: option.splits)
  qed
qed


lemma csv_field_flatten_value:
  "csv_field (flatten_value v) =
     (case v of
        None \<Rightarrow> []
      | Some (Scalar PyNone) \<Rightarrow> []
      | Some (Scalar (PyStr s)) \<Rightarrow> s
      | Some (Scalar (PyInt n)) \<Rightarrow> str_int n
      | Some (PyList xs) \<Rightarrow> join [newline] (map str xs))"
  by (simp add: flatten_value_def split: option.splits pyval.splits scalar.splits)






lemma export_csv_files:
  assumes "makedirs_error s output_dir = None"
    and "\<forall>(key, items)\<in>set data.
           items \<noteq> [] \<longrightarrow> open_error s (os_path_join output_dir (key @ ''.csv'')) = None"
  shows "fst (export_csv data output_dir s) = Inr () \<and>
     files (snd (export_csv data output_dir s)) =
     files s ++ map_of (rev (map (\<lambda>(key, items).
         (os_path_join output_dir (key @ ''.csv''),
          keys (hd items) # map (\<lambda>item. map (\<lambda>f. csv_field (flatten_value (dict_get item f)))
                                         (keys (hd items))) items))
       (filter (\<lambda>(key, items). items \<noteq> []) data)))"
  using assms(1)
    export_loop_eq [of data
      "s\<lparr>dirs := dirs s \<union> set (path_ancestors output_dir) \<union> {output_dir}\<rparr>" output_dir]
    assms(2)
  by (simp add: export_csv_def makedirs_def)

lemma export_csv_file_of_category:
  assumes "(key, items) \<in> set data" and "items \<noteq> []"
    and "distinct (map (\<lambda>(key, items). os_path_join output_dir (key @ ''.csv'')) data)"
    and "makedirs_error s output_dir = None"
    and "\<forall>(key, items)\<in>set data.
           items \<noteq> [] \<longrightarrow> open_error s (os_path_join output_dir (key @ ''.csv'')) = None"
  shows "files (snd (export_csv data output_dir s)) (os_path_join output_dir (key @ ''.csv'')) =
           Some (keys (hd items) #
                 map (\<lambda>item. map (\<lambda>f. csv_field (flatten_value (dict_get item f)))
                               (keys (hd items))) items)"
proof -
  let ?entry = "\<lambda>(key, items).
         (os_path_join output_dir (key @ ''.csv''),
          keys (hd items) # map (\<lambda>item. map (\<lambda>f. csv_field (flatten_value (dict_get item f)))
                                         (keys (hd items))) items)"
  let ?written = "rev (map ?entry (filter (\<lambda>(key, items). items \<noteq> []) data))"
  have "map fst ?written =
          rev (map (\<lambda>(key, items). os_path_join output_dir (key @ ''.csv''))
                 (filter (\<lambda>(key, items). items \<noteq> []) data))"
    by (simp add: rev_map case_prod_beta comp_def)
  moreover have "distinct (map (\<lambda>(key, items). os_path_join output_dir (key @ ''.csv''))
                 (filter (\<lambda>(key, items). items \<noteq> []) data))"
    using assms(3) by (rule distinct_map_filter)
  ultimately have "distinct (map fst ?written)" by simp
  moreover have "?entry (key, items) \<in> set ?written"
    using assms(1,2) by (auto simp: image_iff intro!: bexI [of _ "(key, items)"])
  ultimately have "map_of ?written (os_path_join output_dir (key @ ''.csv'')) =
      Some (keys (hd items) #
                 map (\<lambda>item. map (\<lambda>f. csv_field (flatten_value (dict_get item f)))
                               (keys (hd items))) items)"
    by (intro map_of_is_SomeI) simp_all
  then show ?thesis
    using export_csv_files [OF assms(4,5)] by (simp add: map_add_def)
qed


subsection \<open>\<^verbatim>\<open>collect_processes\<close> never raises\<close>

text \<open>
  C2. Whatever the control plane and the exec channel answer, \<^verbatim>\<open>collect_processes\<close>
  returns a list of strings and raises nothing. Every failure gives the empty list: an
  exception anywhere in the body of the \<^verbatim>\<open>try\<close>, in particular a failed read of the pod
  and an exec that fails.
\<close>

theorem collect_processes_never_raises:
  "(\<exists>processes. fst (collect_processes k pod_name ns container_name) = Inr processes) \<and>
   (isl (fst (collect_processes_try k pod_name ns container_name)) \<longrightarrow>
      fst (collect_processes k pod_name ns container_name) = Inr []) \<and>
   (isl (read_namespaced_pod k pod_name ns) \<longrightarrow>
      fst (collect_processes k pod_name ns container_name) = Inr []) \<and>
   ((\<forall>command container.
       isl (connect_get_namespaced_pod_exec k pod_name ns command container)) \<longrightarrow>
      fst (collect_processes k pod_name ns container_name) = Inr [])"
proof (intro conjI impI)
  show "\<exists>processes. fst (collect_processes k pod_name ns container_name) = Inr processes"
    by (rule collect_processes_returns)
next
  assume "isl (fst (collect_processes_try k pod_name ns container_name))"
  then show "fst (collect_processes k pod_name ns container_name) = Inr []"
    by (auto simp: collect_processes_def split: prod.splits sum.splits)
next
  assume "isl (read_namespaced_pod k pod_name ns)"
  then show "fst (collect_processes k pod_name ns container_name) = Inr []"
    by (auto simp: collect_processes_def collect_processes_try_def isl_def)
next
  assume broken:
    "\<forall>command container. isl (connect_get_namespaced_pod_exec k pod_name ns command container)"
  have "\<not> (\<exists>resp. connect_get_namespaced_pod_exec k pod_name ns command container = Inr resp)"
    for command container
  proof
    assume "\<exists>resp. connect_get_namespaced_pod_exec k pod_name ns command container = Inr resp"
    moreover from broken
    have "isl (connect_get_namespaced_pod_exec k pod_name ns command container)" by blast
    ultimately show False by auto
  qed
  then show "fst (collect_processes k pod_name ns container_name) = Inr []"
    by (simp add: collect_processes_def collect_processes_try_def Let_def
        split: sum.splits list.splits option.splits prod.splits)
qed

theorem collect_processes_never_raises_witness:
  "isl (read_namespaced_pod broken_cluster ''web'' ''default'') \<and>
   isl (fst (collect_processes_try broken_cluster ''web'' ''default'' None)) \<and>
   fst (collect_processes broken_cluster ''web'' ''default'' None) = Inr [] \<and>
   (\<forall>command container.
      isl (connect_get_namespaced_pod_exec exec_broken_cluster ''web'' ''default''
             command container)) \<and>
   snd (collect_processes exec_broken_cluster ''web'' ''default'' (Some ''sidecar'')) =
     [ReadNamespacedPod ''web'' ''default'',
      PodExec ''web'' ''default'' [''ps'', ''aux''] ''sidecar''] \<and>
   fst (collect_processes exec_broken_cluster ''web'' ''default'' (Some ''sidecar'')) = Inr []"
  using collect_processes_never_raises [of broken_cluster "''web''" "''default''" None]
    collect_processes_never_raises
      [of exec_broken_cluster "''web''" "''default''" "Some ''sidecar''"]
  by (simp add: broken_cluster_def exec_broken_cluster_def collect_processes_def
      collect_processes_try_def running_pod_def declared_containers_def api_error_def)

subsection \<open>\<^verbatim>\<open>collect_processes\<close> on a pod that is not running\<close>

text \<open>
  C8. When the pod that the control plane returns is not in phase \<^verbatim>\<open>Running\<close> (another
  phase, no phase, or no status at all), \<^verbatim>\<open>collect_processes\<close> returns the empty list as
  a value, and the read of the pod is the only call it makes: no exec is attempted.
\<close>

theorem collect_processes_not_running:
  assumes "read_namespaced_pod k pod_name ns = Inr pod"
    and "Option.bind (pod_status pod) phase \<noteq> Some ''Running''"
  shows "fst (collect_processes k pod_name ns container_name) = Inr [] \<and>
         snd (collect_processes k pod_name ns container_name) = [ReadNamespacedPod pod_name ns] \<and>
         filter is_exec (snd (collect_processes k pod_name ns container_name)) = []"
  using assms
  by (auto simp: collect_processes_def collect_processes_try_def Let_def
      split: sum.splits list.splits option.splits prod.splits if_splits)

theorem collect_processes_not_running_witness:
  "read_namespaced_pod finished_cluster ''web'' ''default'' = Inr finished_pod \<and>
   Option.bind (pod_status finished_pod) phase = Some ''Succeeded'' \<and>
   collect_processes finished_cluster ''web'' ''default'' None =
     (Inr [], [ReadNamespacedPod ''web'' ''default''])"
  using collect_processes_not_running
    [of finished_cluster "''web''" "''default''" finished_pod None]
  by (simp add: finished_cluster_def finished_pod_def exec_broken_cluster_def prod_eq_iff)

subsection \<open>\<^verbatim>\<open>collect_containers\<close> flattens the pods\<close>

text \<open>
  C4. When the listing of the pods succeeds, \<^verbatim>\<open>collect_containers\<close> returns, in order, one
  record for each container that each pod declares. A pod without a spec, without a
  container list or with an empty one declares no container, adds no record and raises
  nothing. Each record holds the container's name and image and the name, namespace and
  node name of its pod.
\<close>

theorem collect_containers_flattens:
  assumes "list_pod_for_all_namespaces k = Inr pods"
  shows "collect_containers k =
           Inr (concat (map (\<lambda>pod. map (container_record pod) (declared_containers pod)) pods)) \<and>
         (\<forall>pod container.
            map fst (container_record pod container) =
              [''name'', ''image'', ''pod_name'', ''namespace'', ''node_name''] \<and>
            dict_get (container_record pod container) ''name'' = Some (str_val (cname container)) \<and>
            dict_get (container_record pod container) ''image'' = Some (opt_str (image container)) \<and>
            dict_get (container_record pod container) ''pod_name'' =
              Some (str_val (name (pod_metadata pod))) \<and>
            dict_get (container_record pod container) ''namespace'' =
              Some (str_val (namespace (pod_metadata pod))) \<and>
            dict_get (container_record pod container) ''node_name'' =
              Some (opt_str (Option.bind (pod_spec pod) node_name))) \<and>
         (\<forall>pod. (pod_spec pod = None \<or> Option.bind (pod_spec pod) containers = None \<or>
                 Option.bind (pod_spec pod) containers = Some []) =
                (declared_containers pod = []))"
proof (intro conjI allI)
  show "collect_containers k =
       Inr (concat (map (\<lambda>pod. map (container_record pod) (declared_containers pod)) pods))"
    using assms
    by (simp add: collect_containers_def except_ApiException_def collect_containers_loop_eq)
qed (auto simp: container_record_def declared_containers_def opt_str_def split: option.splits)

theorem collect_containers_flattens_witness:
  "list_pod_for_all_namespaces three_container_cluster = Inr [running_pod, bare_pod, db_pod] \<and>
   collect_containers three_container_cluster =
     Inr [[(''name'', Scalar (PyStr ''app'')), (''image'', Scalar (PyStr ''nginx:1.25'')),
           (''pod_name'', Scalar (PyStr ''web'')), (''namespace'', Scalar (PyStr ''default'')),
           (''node_name'', Scalar (PyStr ''node-1''))],
          [(''name'', Scalar (PyStr ''sidecar'')), (''image'', Scalar PyNone),
           (''pod_name'', Scalar (PyStr ''web'')), (''namespace'', Scalar (PyStr ''default'')),
           (''node_name'', Scalar (PyStr ''node-1''))],
          [(''name'', Scalar (PyStr ''postgres'')), (''image'', Scalar (PyStr ''postgres:16'')),
           (''pod_name'', Scalar (PyStr ''db'')), (''namespace'', Scalar (PyStr ''prod'')),
           (''node_name'', Scalar PyNone)]]"
  using collect_containers_flattens [of three_container_cluster "[running_pod, bare_pod, db_pod]"]
  by (simp add: three_container_cluster_def broken_cluster_def running_pod_def bare_pod_def
      db_pod_def declared_containers_def container_record_def meta_of_def str_val_def opt_str_def)

subsection \<open>\<^verbatim>\<open>collect_all_processes\<close> and its snapshots\<close>

text \<open>
  When the listing succeeds and each listed pod has a status, \<^verbatim>\<open>collect_all_processes\<close>
  returns, in order, one snapshot for each declared container of each pod in phase
  \<^verbatim>\<open>Running\<close>: the pod's name and namespace, the container's name, and the list that
  \<^verbatim>\<open>collect_processes\<close> returned for that container, empty or not. Each snapshot depends on
  the call for its own container only, so an exec that fails in one container leaves the
  snapshots of the others as they are. \<^verbatim>\<open>collect_processes\<close> is called once per snapshot.
\<close>

lemma collect_all_processes_snapshots:
  assumes "list_pod_for_all_namespaces k = Inr pods"
    and "\<forall>pod\<in>set pods. pod_status pod \<noteq> None"
  shows "fst (collect_all_processes k) =
           Inr (concat (map (\<lambda>pod. map (\<lambda>c. process_record pod c (listed_processes k pod c))
                                      (declared_containers pod))
                  (filter (\<lambda>pod. Option.bind (pod_status pod) phase = Some ''Running'') pods))) \<and>
         snd (collect_all_processes k) =
           ListPodForAllNamespaces #
           concat (map (\<lambda>pod. concat (map (\<lambda>c. snd (collect_processes k (name (pod_metadata pod))
                                          (namespace (pod_metadata pod)) (Some (cname c))))
                                  (declared_containers pod)))
                  (filter (\<lambda>pod. Option.bind (pod_status pod) phase = Some ''Running'') pods)) \<and>
         (\<exists>snapshots. fst (collect_all_processes k) = Inr snapshots \<and>
            length snapshots =
              sum_list (map (\<lambda>pod. length (declared_containers pod))
                (filter (\<lambda>pod. Option.bind (pod_status pod) phase = Some ''Running'') pods)))"
  using assms
  by (simp add: collect_all_processes_def collect_all_processes_loop_eq except_ApiException_def
      length_concat comp_def)

lemma collect_all_processes_snapshots_example:
  "list_pod_for_all_namespaces sidecar_broken_cluster = Inr [db_pod, running_pod] \<and>
   pod_status db_pod \<noteq> None \<and> pod_status running_pod \<noteq> None \<and>
   fst (collect_all_processes sidecar_broken_cluster) =
     Inr [[(''pod_name'', Scalar (PyStr ''web'')), (''namespace'', Scalar (PyStr ''default'')),
           (''container_name'', Scalar (PyStr ''app'')),
           (''processes'', PyList [PyStr ''PID USER COMMAND'', PyStr ''1 root nginx''])],
          [(''pod_name'', Scalar (PyStr ''web'')), (''namespace'', Scalar (PyStr ''default'')),
           (''container_name'', Scalar (PyStr ''sidecar'')),
           (''processes'', PyList [])]]"
  using collect_all_processes_snapshots [of sidecar_broken_cluster "[db_pod, running_pod]"]
  by (simp add: sidecar_broken_cluster_def db_pod_def running_pod_def declared_containers_def
      process_record_def listed_processes_def collect_processes_def collect_processes_try_def
      meta_of_def str_val_def api_error_def ps_output_def parse_ps_def strip_def isspace_def
      newline_def)

text \<open>
  C3. The specification requires one snapshot for each declared container of every pod in
  phase \<^verbatim>\<open>Running\<close>. The code does not return them when a listed pod has no status:
  \<^verbatim>\<open>pod.status.phase\<close> raises \<^verbatim>\<open>AttributeError\<close>, the handler for \<^verbatim>\<open>ApiException\<close> lets it through,
  and the snapshots collected so far are lost with the local list. Here the running pod
  comes first, \<^verbatim>\<open>collect_processes\<close> is called for both of its containers, and the method
  raises at the second pod.
\<close>

theorem running_pod_snapshots_lost:
  "list_pod_for_all_namespaces lost_cluster = Inr [running_pod, bare_pod] \<and>
   Option.bind (pod_status running_pod) phase = Some ''Running'' \<and>
   length (declared_containers running_pod) = 2 \<and>
   pod_status bare_pod = None \<and>
   fst (collect_all_processes lost_cluster) = Inl (none_has_no_attribute ''phase'') \<and>
   snd (collect_all_processes lost_cluster) =
     [ListPodForAllNamespaces,
      ReadNamespacedPod ''web'' ''default'', PodExec ''web'' ''default'' [''ps'', ''aux''] ''app'',
      ReadNamespacedPod ''web'' ''default'',
      PodExec ''web'' ''default'' [''ps'', ''aux''] ''sidecar'']"
  by (simp add: lost_cluster_def running_pod_def bare_pod_def declared_containers_def
      collect_all_processes_def collect_processes_def collect_processes_try_def
      except_ApiException_def none_has_no_attribute_def meta_of_def)

subsection \<open>Objects without a status\<close>

text \<open>
  C1. The specification requires that a node, pod or container object without an optional
  sub-object gives a record with \<^verbatim>\<open>None\<close> in the fields concerned, and no failure. The
  code does not do so for \<^verbatim>\<open>status\<close>. On a node without
  \<^verbatim>\<open>status\<close>, \<^verbatim>\<open>collect_nodes\<close> raises \<^verbatim>\<open>AttributeError\<close>; on a pod without \<^verbatim>\<open>status\<close>,
  \<^verbatim>\<open>collect_all_processes\<close> raises it too. \<^verbatim>\<open>collect_pods\<close> tests \<^verbatim>\<open>pod.status\<close> and
  \<^verbatim>\<open>collect_containers\<close> never reads it: on the same pod both return normally.
\<close>

theorem absent_status_raises:
  "collect_nodes bare_cluster = Inl (none_has_no_attribute ''node_info'') \<and>
   fst (collect_all_processes bare_cluster) = Inl (none_has_no_attribute ''phase'') \<and>
   exn_cls (none_has_no_attribute ''node_info'') = AttributeError \<and>
   collect_pods bare_cluster =
     Inr [[(''name'', Scalar (PyStr ''pending'')), (''namespace'', Scalar (PyStr ''default'')),
           (''uid'', Scalar (PyStr ''uid-pending'')), (''node_name'', Scalar PyNone),
           (''service_account'', Scalar PyNone), (''status'', Scalar PyNone),
           (''pod_ip'', Scalar PyNone)]] \<and>
   collect_containers bare_cluster = Inr []"
  by (simp add: bare_cluster_def bare_node_def bare_pod_def collect_nodes_def node_record_def
      collect_all_processes_def collect_pods_def pod_record_def collect_containers_def
      declared_containers_def except_ApiException_def none_has_no_attribute_def meta_of_def
      str_val_def)

subsection \<open>A listing that fails\<close>

text \<open>
  C6, as the specification states it: each of the four listings fails with an error that
  wraps the control plane's error, on any transport or API failure. A failure that is no \<^verbatim>\<open>ApiException\<close>
  (here an error of the HTTP layer) is not wrapped: it leaves \<^verbatim>\<open>collect_nodes\<close> as it is.
\<close>

theorem listing_error_not_wrapped:
  "list_node timeout_cluster = Inl timeout_error \<and>
   collect_nodes timeout_cluster = Inl timeout_error \<and>
   exn_cls timeout_error = OtherException \<and>
   \<not> (\<exists>msg. collect_nodes timeout_cluster = Inl (Exn RuntimeError msg))"
  by (simp add: timeout_cluster_def timeout_error_def collect_nodes_def except_ApiException_def)

text \<open>
  C6, amended. When the listing call raises, each of \<^verbatim>\<open>collect_nodes\<close>, \<^verbatim>\<open>collect_pods\<close>,
  \<^verbatim>\<open>collect_containers\<close> and \<^verbatim>\<open>collect_all_processes\<close> raises and returns no record: for an
  \<^verbatim>\<open>ApiException\<close> a \<^verbatim>\<open>RuntimeError\<close> whose text is the method's prefix followed by the text
  of the API error, for any other exception that exception itself.
\<close>

theorem listing_error_is_fatal:
  "(list_node k = Inl e \<longrightarrow>
      collect_nodes k =
        Inl (if exn_cls e = ApiException
             then Exn RuntimeError (''Failed to list nodes: '' @ exn_str e) else e)) \<and>
   (list_pod_for_all_namespaces k = Inl e \<longrightarrow>
      collect_pods k =
        Inl (if exn_cls e = ApiException
             then Exn RuntimeError (''Failed to list pods: '' @ exn_str e) else e) \<and>
      collect_containers k =
        Inl (if exn_cls e = ApiException
             then Exn RuntimeError (''Failed to list containers: '' @ exn_str e) else e) \<and>
      collect_all_processes k =
        (Inl (if exn_cls e = ApiException
              then Exn RuntimeError (''Failed to collect processes: '' @ exn_str e) else e),
         [ListPodForAllNamespaces]))"
  by (simp add: collect_nodes_def collect_pods_def collect_containers_def
      collect_all_processes_def except_ApiException_def)

theorem listing_error_is_fatal_witness:
  "list_node broken_cluster = Inl api_error \<and>
   list_pod_for_all_namespaces broken_cluster = Inl api_error \<and>
   collect_nodes broken_cluster =
     Inl (Exn RuntimeError ''Failed to list nodes: (500) Internal Server Error'') \<and>
   collect_pods broken_cluster =
     Inl (Exn RuntimeError ''Failed to list pods: (500) Internal Server Error'') \<and>
   collect_containers broken_cluster =
     Inl (Exn RuntimeError ''Failed to list containers: (500) Internal Server Error'') \<and>
   collect_all_processes broken_cluster =
     (Inl (Exn RuntimeError ''Failed to collect processes: (500) Internal Server Error''),
      [ListPodForAllNamespaces])"
  using listing_error_is_fatal [of broken_cluster api_error]
  by (simp add: broken_cluster_def api_error_def)

subsection \<open>The diagnostics of \<^verbatim>\<open>main\<close>\<close>

text \<open>Any exception that reaches \<^verbatim>\<open>main\<close> is reported on \<open>stderr\<close>, with exit status 1.\<close>

lemma main_fatal_exit:
  assumes "fst (main_try cfg output_dir include_processes s0) = Inl e"
  shows "snd (main cfg output_dir include_processes s0) = 1 \<and>
         (''Error: '' @ exn_str e) \<in> set (stderr (fst (main cfg output_dir include_processes s0)))"
  using assms
  by (auto simp: main_def print_def print_stderr_def split: prod.splits sum.splits)

text \<open>
  C7. The specification requires that a \<^verbatim>\<open>ConnectionError\<close> raised by the collector gets
  the diagnostic for a connection failure, with the advice on credentials. Without
  credentials the
  collector raises its own \<^verbatim>\<open>ConnectionError\<close>, and \<^verbatim>\<open>main\<close> prints the generic diagnostic
  only (exit status 1). The advice is printed for Python's built-in \<^verbatim>\<open>ConnectionError\<close>,
  which a listing may let through.
\<close>

theorem collector_connection_error_is_generic:
  "connect no_credentials =
     Inl (Exn Collector_ConnectionError
            ''Failed to connect to Kubernetes cluster: Invalid kube-config file.'') \<and>
   main no_credentials ''output'' False initial_os =
     (initial_os\<lparr>stdout := [''Connecting to Kubernetes cluster...''],
        stderr := [''Error: Failed to connect to Kubernetes cluster: Invalid kube-config file.'']\<rparr>,
      1) \<and>
   main refused_config ''output'' False initial_os =
     (initial_os\<lparr>stdout := [''Connecting to Kubernetes cluster...'', ''Collecting nodes...'',
                      [newline] @ ''Make sure you have:'', ''  - Valid kubeconfig file, or''],
        stderr := [''Error: Connection refused'',
                   ''  - GOOGLE_APPLICATION_CREDENTIALS environment variable set'']\<rparr>,
      1)"
  by (simp add: no_credentials_def refused_config_def refused_cluster_def broken_cluster_def
      initial_os_def main_def main_try_def connect_def collect_nodes_def except_ApiException_def
      print_def print_stderr_def api_error_def)

subsection \<open>The file of one category\<close>

text \<open>
  C5. Take a call of \<^verbatim>\<open>export_csv\<close> in which the categories have different file names
  and the file system raises nothing, and a non-empty record set of it. The file of the
  category holds a header row and one row per record, in order. The header is the list of
  the keys of the first record, in that record's order. Each row has one field per header
  field, in header order: for a list the \<^verbatim>\<open>str\<close> of its elements joined by a newline, for
  \<^verbatim>\<open>None\<close> or a missing key the empty field, for a string the string, for an integer its
  decimal form.
\<close>

theorem export_csv_table:
  assumes "(key, items) \<in> set data" and "items \<noteq> []"
    and "distinct (map (\<lambda>(key, items). os_path_join output_dir (key @ ''.csv'')) data)"
    and "makedirs_error s output_dir = None"
    and "\<forall>(key, items)\<in>set data.
           items \<noteq> [] \<longrightarrow> open_error s (os_path_join output_dir (key @ ''.csv'')) = None"
  shows "\<exists>header rows.
           files (snd (export_csv data output_dir s)) (os_path_join output_dir (key @ ''.csv'')) =
             Some (header # rows) \<and>
           header = keys (hd items) \<and>
           length rows = length items \<and>
           (\<forall>i<length items.
              length (rows ! i) = length header \<and>
              (\<forall>j<length header.
                 rows ! i ! j =
                   (case dict_get (items ! i) (header ! j) of
                      None \<Rightarrow> []
                    | Some (Scalar PyNone) \<Rightarrow> []
                    | Some (Scalar (PyStr s)) \<Rightarrow> s
                    | Some (Scalar (PyInt n)) \<Rightarrow> str_int n
                    | Some (PyList xs) \<Rightarrow> join [newline] (map str xs))))"
  using export_csv_file_of_category [OF assms]
  by (simp add: csv_field_flatten_value)

theorem export_csv_table_witness:
  "(''items'', order_records) \<in> set export_data \<and> order_records \<noteq> [] \<and>
   (''tagged'', tagged_records) \<in> set export_data \<and> tagged_records \<noteq> [] \<and>
   distinct (map (\<lambda>(key, items). os_path_join ''output'' (key @ ''.csv'')) export_data) \<and>
   makedirs_error initial_os ''output'' = None \<and>
   open_error initial_os ''output/items.csv'' = None \<and>
   open_error initial_os ''output/tagged.csv'' = None \<and>
   files (snd (export_csv export_data ''output'' initial_os)) ''output/items.csv'' =
     Some [[''b'', ''a''], [''1'', ''2''], [''9'', ''9'']] \<and>
   files (snd (export_csv export_data ''output'' initial_os)) ''output/tagged.csv'' =
     Some [[''name'', ''tags''], [''x'', ''a'' @ [newline] @ ''b''], [[], []]]"
proof -
  have "(''items'', order_records) \<in> set export_data" and "order_records \<noteq> []"
    and "distinct (map (\<lambda>(key, items). os_path_join ''output'' (key @ ''.csv'')) export_data)"
    and "makedirs_error initial_os ''output'' = None"
    and "\<forall>(key, items)\<in>set export_data.
           items \<noteq> [] \<longrightarrow> open_error initial_os (os_path_join ''output'' (key @ ''.csv'')) = None"
    by (simp_all add: export_data_def order_records_def os_path_join_def initial_os_def)
  from export_csv_table [OF this] show ?thesis
    by (simp add: export_data_def order_records_def tagged_records_def initial_os_def
      export_csv_def makedirs_def open_w_def write_table_def write_file_def print_def
      DictWriter_writeheader_def DictWriter_writerow_def keys_def flatten_value_def
      os_path_join_def str_int_def str_nat.simps Let_def)
qed

subsection \<open>Files, categories and the output directory\<close>




subsection \<open>Records with other fields than the first\<close>

text \<open>
  C10. In the same setting as C5, \<^verbatim>\<open>export_csv\<close> raises nothing, whatever the keys of
  the records are. Each row has exactly the header's fields and is the row of the record
  cut down to the header's keys, so a key that the first record lacks is left out; a
  header field that a record lacks is written as the empty field.
\<close>

theorem export_csv_heterogeneous:
  assumes "(key, items) \<in> set data" and "items \<noteq> []"
    and "distinct (map (\<lambda>(key, items). os_path_join output_dir (key @ ''.csv'')) data)"
    and "makedirs_error s output_dir = None"
    and "\<forall>(key, items)\<in>set data.
           items \<noteq> [] \<longrightarrow> open_error s (os_path_join output_dir (key @ ''.csv'')) = None"
  shows "fst (export_csv data output_dir s) = Inr () \<and>
         (\<exists>header rows.
            files (snd (export_csv data output_dir s))
                (os_path_join output_dir (key @ ''.csv'')) =
              Some (header # rows) \<and>
            header = keys (hd items) \<and>
            length rows = length items \<and>
            (\<forall>i<length items.
               length (rows ! i) = length header \<and>
               rows ! i =
                 map (\<lambda>f. csv_field (flatten_value
                             (dict_get (filter (\<lambda>(f, v). f \<in> set header) (items ! i)) f)))
                   header \<and>
               (\<forall>j<length header.
                  header ! j \<notin> set (keys (items ! i)) \<longrightarrow> rows ! i ! j = [])))"
proof -
  have absent: "csv_field (flatten_value (dict_get item f)) = []" if "f \<notin> set (keys item)"
    for item :: pydict and f
    using that by (simp add: dict_get_None_iff [symmetric] flatten_value_def)
  show ?thesis
    using export_csv_file_of_category [OF assms] export_csv_files [OF assms(4,5)]
    by (simp add: dict_get_filter absent)
qed

theorem export_csv_heterogeneous_witness:
  "(''mixed'', mixed_records) \<in> set mixed_data \<and> mixed_records \<noteq> [] \<and>
   distinct (map (\<lambda>(key, items). os_path_join ''output'' (key @ ''.csv'')) mixed_data) \<and>
   makedirs_error initial_os ''output'' = None \<and>
   open_error initial_os ''output/mixed.csv'' = None \<and>
   keys (mixed_records ! 1) = [''name'', ''pod_ip''] \<and>
   fst (export_csv mixed_data ''output'' initial_os) = Inr () \<and>
   files (snd (export_csv mixed_data ''output'' initial_os)) ''output/mixed.csv'' =
     Some [[''name'', ''status''], [''web'', ''Running''], [''db'', []]]"
proof -
  have "(''mixed'', mixed_records) \<in> set mixed_data" and "mixed_records \<noteq> []"
    and "distinct (map (\<lambda>(key, items). os_path_join ''output'' (key @ ''.csv'')) mixed_data)"
    and "makedirs_error initial_os ''output'' = None"
    and "\<forall>(key, items)\<in>set mixed_data.
           items \<noteq> [] \<longrightarrow> open_error initial_os (os_path_join ''output'' (key @ ''.csv'')) = None"
    by (simp_all add: mixed_data_def mixed_records_def os_path_join_def initial_os_def)
  from export_csv_heterogeneous [OF this] show ?thesis
    by (simp add: mixed_data_def mixed_records_def initial_os_def
      export_csv_def makedirs_def open_w_def write_table_def write_file_def print_def
      DictWriter_writeheader_def DictWriter_writerow_def keys_def flatten_value_def
      os_path_join_def Let_def)
qed

end
